theory Spec2Isabelle
  imports Main "HOL-Library.Sublist"
begin

section \<open>JavaScript strings and the regular expressions of the server\<close>

text \<open>
  A JavaScript string is a sequence of UTF-16 code units. It is modelled as a
  \<^typ>\<open>string\<close>, one character for one code unit; the strings of the model are those
  whose code units are below U+0100. The value \<open>undefined\<close> is
  \<^const>\<open>None\<close> of an option type; where the source converts it to a string
  (\<open>String(parts[2])\<close>, a property key) the result is the text \<open>undefined\<close>.
\<close>

definition js_String :: "string option \<Rightarrow> string" where
  "js_String v = (case v of None \<Rightarrow> ''undefined'' | Some s \<Rightarrow> s)"

text \<open>
  The dot of a regular expression matches every character but a line terminator. Of the
  four line terminators of the language, line feed and carriage return are characters of
  this model.
\<close>

definition line_terminator :: "char \<Rightarrow> bool" where
  "line_terminator c \<longleftrightarrow> c = CHR 0x0A \<or> c = CHR 0x0D"

fun js_lines :: "string \<Rightarrow> string list" where
  "js_lines [] = [[]]"
| "js_lines (c # cs) =
     (if line_terminator c then [] # js_lines cs
      else (case js_lines cs of [] \<Rightarrow> [[c]] | l # ls \<Rightarrow> (c # l) # ls))"

text \<open>
  \<open>/(.*)\:\/\/(.*)/\<close> tried at the start of one line: the first group is greedy, so the
  separator found is the last \<open>://\<close> of the line.
\<close>

fun split_last_sep :: "string \<Rightarrow> (string \<times> string) option" where
  "split_last_sep [] = None"
| "split_last_sep (c # cs) =
     (case split_last_sep cs of
        Some (p, r) \<Rightarrow> Some (c # p, r)
      | None \<Rightarrow> if prefix ''://'' (c # cs) then Some ([], drop 3 (c # cs)) else None)"

fun first_match :: "string list \<Rightarrow> (string \<times> string) option" where
  "first_match [] = None"
| "first_match (l # ls) =
     (case split_last_sep l of Some m \<Rightarrow> Some m | None \<Rightarrow> first_match ls)"

text \<open>
  \<open>query.split(/(.*)\:\/\/(.*)/)\<close>: the elements 1 and 2 of the array, which are the two
  groups of the first match, or both \<open>undefined\<close> when no line of the query holds \<open>://\<close>.
\<close>

definition split_query :: "string \<Rightarrow> string option \<times> string option" where
  "split_query query =
     (case first_match (js_lines query) of
        None \<Rightarrow> (None, None)
      | Some (p, r) \<Rightarrow> (Some p, Some r))"

text \<open>\<open>s.replace(/^\/+?/, r)\<close>: the lazy quantifier takes exactly one leading slash.\<close>

definition replace_leading_slash :: "string \<Rightarrow> string \<Rightarrow> string" where
  "replace_leading_slash r s = (case s of [] \<Rightarrow> [] | c # cs \<Rightarrow> if c = CHR ''/'' then r @ cs else s)"

text \<open>\<open>endpoint.replace(/(^get\/)?/, '')\<close>: an optional \<open>get/\<close> at the start is removed.\<close>

definition strip_get :: "string \<Rightarrow> string" where
  "strip_get e = (if prefix ''get/'' e then drop 4 e else e)"

text \<open>\<open>s.indexOf(q)\<close>, with \<open>-1\<close> when \<open>q\<close> does not occur.\<close>

fun indexOf :: "string \<Rightarrow> string \<Rightarrow> int" where
  "indexOf [] q = (if q = [] then 0 else -1)"
| "indexOf (c # cs) q =
     (if prefix q (c # cs) then 0
      else (let i = indexOf cs q in if i = -1 then -1 else i + 1))"

text \<open>
  \<open>String.prototype.toLowerCase\<close> belongs to the runtime, not to the server: the
  functions that call it take it as the argument \<open>toLowerCase\<close>. On the strings of
  code units below U+0100 it is the function \<open>latin1_toLowerCase\<close>: the letters
  \<open>A\<close> to \<open>Z\<close> and U+00C0 to U+00DE, without the sign U+00D7, have their small
  letter 32 code units further on, and every other code unit is left as it is.
\<close>

definition latin1_lower :: "char \<Rightarrow> char" where
  "latin1_lower c =
     (let n = (of_char c :: nat)
      in if (65 \<le> n \<and> n \<le> 90) \<or> (192 \<le> n \<and> n \<le> 222 \<and> n \<noteq> 215)
         then char_of (n + 32) else c)"

definition latin1_toLowerCase :: "string \<Rightarrow> string" where
  "latin1_toLowerCase s = map latin1_lower s"

section \<open>The path module of Node (POSIX)\<close>

text \<open>
  The transport joins the substituted destination and the request path with \<open>_path.join\<close>.
  These are \<open>normalizeArray\<close>, \<open>normalize\<close> and \<open>join\<close> of Node's \<open>path\<close>.
\<close>

fun split_slash :: "string \<Rightarrow> string list" where
  "split_slash [] = [[]]"
| "split_slash (c # cs) =
     (if c = CHR ''/'' then [] # split_slash cs
      else (case split_slash cs of [] \<Rightarrow> [[c]] | s # ss \<Rightarrow> (c # s) # ss))"

fun join_slash :: "string list \<Rightarrow> string" where
  "join_slash [] = []"
| "join_slash [s] = s"
| "join_slash (s # t # ss) = s @ ''/'' @ join_slash (t # ss)"

fun normalizeArray :: "bool \<Rightarrow> string list \<Rightarrow> string list \<Rightarrow> string list" where
  "normalizeArray allowAboveRoot [] res = res"
| "normalizeArray allowAboveRoot (p # ps) res =
     (if p = [] \<or> p = ''.'' then normalizeArray allowAboveRoot ps res
      else if p = ''..'' then
        (if res \<noteq> [] \<and> last res \<noteq> ''..'' then normalizeArray allowAboveRoot ps (butlast res)
         else if allowAboveRoot then normalizeArray allowAboveRoot ps (res @ [''..''])
         else normalizeArray allowAboveRoot ps res)
      else normalizeArray allowAboveRoot ps (res @ [p]))"

definition isAbsolute :: "string \<Rightarrow> bool" where
  "isAbsolute p \<longleftrightarrow> (case p of [] \<Rightarrow> False | c # _ \<Rightarrow> c = CHR ''/'')"

text \<open>
  The end of \<open>normalize\<close>: the segments are joined, an empty relative path is a dot, the
  trailing slash is put back and an absolute path gets its leading slash.
\<close>

definition assemble :: "bool \<Rightarrow> bool \<Rightarrow> string list \<Rightarrow> string" where
  "assemble absolute trailingSlash segs =
     (let p1 = join_slash segs;
          p2 = (if p1 = [] \<and> \<not> absolute then ''.'' else p1);
          p3 = (if p2 \<noteq> [] \<and> trailingSlash then p2 @ ''/'' else p2)
      in (if absolute then ''/'' else []) @ p3)"

definition normalize :: "string \<Rightarrow> string" where
  "normalize p =
     assemble (isAbsolute p) (p \<noteq> [] \<and> last p = CHR ''/'')
       (normalizeArray (\<not> isAbsolute p) (split_slash p) [])"

fun join_args :: "string \<Rightarrow> string list \<Rightarrow> string" where
  "join_args path [] = path"
| "join_args path (segment # rest) =
     (if segment \<noteq> []
      then join_args (if path = [] then segment else path @ ''/'' @ segment) rest
      else join_args path rest)"

definition path_join :: "string list \<Rightarrow> string" where
  "path_join segments = normalize (join_args [] segments)"

section \<open>The VFS dispatcher (lib/vfs.js)\<close>

datatype js_error = TypeError | ReferenceError | SyntaxError

text \<open>
  A mountpoint of the configuration is a template string or an object. Of the object,
  \<open>transport\<close> is its value when that is a string, \<open>enabled\<close> and \<open>ro\<close> are
  their values when those are booleans: the source compares with \<open>=== false\<close> and
  \<open>=== true\<close>, so every other value behaves as an absent one.
\<close>

record mount_object =
  destination :: "string option"
  transport :: "string option"
  enabled :: "bool option"
  ro :: "bool option"

datatype mount = MountString string | MountObject mount_object

text \<open>A transport module: its \<open>name\<close> and, abstractly, its implementation.\<close>

record 'm vfs_module =
  mod_name :: string
  mod_body :: 'm

text \<open>
  The part of the server instance the VFS reads: \<open>DIST\<close>, \<open>DIRS.root\<close>,
  \<open>CONFIG.vfs.mounts\<close> (an absent table is the empty one), \<open>CONFIG.mimes\<close> and the list
  \<open>VFS\<close> of the registered transport modules. The keys of the tables are the keys
  written in the configuration. For a protocol that is no key but a name every object
  inherits (such as \<open>constructor\<close>), \<open>findTransport\<close> reads a value without the
  flags and the transport of a mount, as for an absent mount; the keys read in
  \<open>mimes\<close> are \<open>default\<close> or begin with a dot, so they are no such names.
\<close>

record 'm server_instance =
  DIST :: string
  DIRS_root :: string
  mounts :: "string \<rightharpoonup> mount"
  mimes :: "string \<rightharpoonup> string"
  VFS :: "'m vfs_module list"

text \<open>The arguments of a VFS call (\<open>http.data\<close>); an absent field is \<^const>\<open>None\<close>.\<close>

record vfs_args =
  arg_path :: "string option"
  arg_src :: "string option"
  arg_dest :: "string option"
  arg_root :: "string option"
  opt_raw :: "bool option"
  opt_stream :: "bool option"
  arg_overwrite :: "string option"
  find_query :: "string option"
  find_recursive :: bool
  find_limit :: "nat option"

definition no_args :: vfs_args where
  "no_args = \<lparr>arg_path = None, arg_src = None, arg_dest = None, arg_root = None,
     opt_raw = None, opt_stream = None, arg_overwrite = None,
     find_query = None, find_recursive = False, find_limit = None\<rparr>"

text \<open>The uploaded file of a multipart request: \<open>http.files.upload\<close>.\<close>

record upload_file =
  upload_path :: string
  upload_name :: string

text \<open>
  The request context: \<open>http.request.method\<close>, \<open>http.endpoint\<close>, \<open>http.data\<close>,
  the \<open>username\<close> of the session and the uploaded file.
\<close>

record http =
  request_method :: string
  endpoint :: string
  data :: vfs_args
  session_username :: "string option"
  files_upload :: "upload_file option"

record parsed =
  parsed_query :: string
  parsed_protocol :: "string option"
  parsed_path :: string

record 'm found =
  found_parsed :: parsed
  found_transport :: "'m vfs_module option"

definition writeableMap :: "string list" where
  "writeableMap = [''upload'', ''write'', ''delete'', ''copy'', ''move'', ''mkdir'']"

text \<open>
  \<open>argumentMap\<close>: which field of the arguments holds the address. The functions for
  \<open>move\<close> and \<open>copy\<close> take a second parameter \<open>dest\<close>. A method without an
  entry gets the entry \<open>_default\<close>; the method is taken to be none of the names every
  object inherits.
\<close>

definition argumentMap :: "string \<Rightarrow> vfs_args \<Rightarrow> bool \<Rightarrow> string option" where
  "argumentMap method args dest =
     (if method = ''freeSpace'' then arg_root args
      else if method = ''move'' \<or> method = ''copy'' then (if dest then arg_dest args else arg_src args)
      else arg_path args)"

text \<open>
  \<open>findTransport\<close>. The source calls the function of \<open>argumentMap\<close> with \<open>args\<close>
  alone, so its parameter \<open>dest\<close> is \<open>undefined\<close>, which is false. An \<open>undefined\<close>
  address has no \<open>split\<close>: a \<open>TypeError\<close>. The result \<open>false\<close> of the source is
  \<^const>\<open>None\<close>.
\<close>

definition find_module :: "'m vfs_module list \<Rightarrow> string \<Rightarrow> 'm vfs_module option" where
  "find_module ms n = List.find (\<lambda>m. mod_name m = n) ms"

definition findTransport ::
  "'m server_instance \<Rightarrow> string \<Rightarrow> vfs_args \<Rightarrow> js_error + 'm found option" where
  "findTransport inst method args =
     (case argumentMap method args False of
        None \<Rightarrow> Inl TypeError
      | Some query \<Rightarrow>
          (let parts = split_query query;
               p = \<lparr>parsed_query = query, parsed_protocol = fst parts,
                    parsed_path = replace_leading_slash ''/'' (js_String (snd parts))\<rparr>;
               result = \<lambda>transportName.
                 Inr (Some \<lparr>found_parsed = p,
                            found_transport = find_module (VFS inst) transportName\<rparr>)
           in case mounts inst (js_String (parsed_protocol p)) of
                Some (MountObject mnt) \<Rightarrow>
                  (if enabled mnt = Some False \<or> (ro mnt = Some True \<and> method \<in> set writeableMap)
                   then Inr None
                   else result (case transport mnt of Some t \<Rightarrow> t | None \<Rightarrow> ''__default__''))
              | _ \<Rightarrow> result ''__default__''))"

text \<open>The envelope handed to the transport's \<open>request\<close>.\<close>

record envelope =
  env_query :: string
  env_method :: string
  env_data :: vfs_args

text \<open>
  What a function of the dispatcher does: it rejects with a message, it throws, or it
  calls one method of a transport module.
\<close>

datatype 'm dispatch =
    Reject string
  | Throw js_error
  | TransportRequest "'m vfs_module" envelope
  | TransportCreateReadStream "'m vfs_module" string
  | TransportCreateWriteStream "'m vfs_module" string

definition request :: "'m server_instance \<Rightarrow> http \<Rightarrow> 'm dispatch" where
  "request inst h =
     (let d = (if request_method h = ''GET''
               then no_args\<lparr>arg_path := Some (strip_get (endpoint h))\<rparr>
               else data h);
          fn = (if request_method h = ''GET'' then ''read'' else endpoint h)
      in case findTransport inst fn d of
           Inl e \<Rightarrow> Throw e
         | Inr None \<Rightarrow> Reject ''Operation denied!''
         | Inr (Some f) \<Rightarrow>
             (case found_transport f of
                None \<Rightarrow> Reject (''Cannot find VFS module for: '' @ parsed_query (found_parsed f))
              | Some t \<Rightarrow>
                  TransportRequest t
                    \<lparr>env_query = parsed_query (found_parsed f), env_method = fn, env_data = d\<rparr>))"

text \<open>
  The stream passthroughs look the transport up under the method \<open>read\<close>. When
  \<open>findTransport\<close> returns \<open>false\<close>, or no module has the name, \<open>found.transport\<close>
  is \<open>undefined\<close> and the call of its method throws.
\<close>

definition createReadStream :: "'m server_instance \<Rightarrow> http \<Rightarrow> string \<Rightarrow> 'm dispatch" where
  "createReadStream inst h path =
     (case findTransport inst ''read'' (no_args\<lparr>arg_path := Some path\<rparr>) of
        Inl e \<Rightarrow> Throw e
      | Inr None \<Rightarrow> Throw TypeError
      | Inr (Some f) \<Rightarrow>
          (case found_transport f of
             None \<Rightarrow> Throw TypeError
           | Some t \<Rightarrow> TransportCreateReadStream t path))"

definition createWriteStream :: "'m server_instance \<Rightarrow> http \<Rightarrow> string \<Rightarrow> 'm dispatch" where
  "createWriteStream inst h path =
     (case findTransport inst ''read'' (no_args\<lparr>arg_path := Some path\<rparr>) of
        Inl e \<Rightarrow> Throw e
      | Inr None \<Rightarrow> Throw TypeError
      | Inr (Some f) \<Rightarrow>
          (case found_transport f of
             None \<Rightarrow> Throw TypeError
           | Some t \<Rightarrow> TransportCreateWriteStream t path))"

section \<open>The local file system\<close>

text \<open>
  The file system the default transport works on: the real paths that exist, each a file
  with its bytes or a directory. Its entries are listed in the order the operating system
  would report them. Permissions, times and failures of the device are not part of the
  model.
\<close>

datatype node = File string | Directory

type_synonym filesystem = "(string \<times> node) list"

datatype errno = ENOENT | EISDIR | ENOTDIR | EACCES | ENOSPC | EIO

definition fs_exists :: "filesystem \<Rightarrow> string \<Rightarrow> bool" where
  "fs_exists fs p \<longleftrightarrow> map_of fs p \<noteq> None"

definition fs_readFile :: "filesystem \<Rightarrow> string \<Rightarrow> errno + string" where
  "fs_readFile fs p =
     (case map_of fs p of
        None \<Rightarrow> Inl ENOENT
      | Some Directory \<Rightarrow> Inl EISDIR
      | Some (File bytes) \<Rightarrow> Inr bytes)"

definition dir_prefix :: "string \<Rightarrow> string" where
  "dir_prefix p = (if p \<noteq> [] \<and> last p = CHR ''/'' then p else p @ ''/'')"

definition child_name :: "string \<Rightarrow> string \<Rightarrow> string option" where
  "child_name dir p =
     (if prefix (dir_prefix dir) p
      then (let n = drop (length (dir_prefix dir)) p
            in if n \<noteq> [] \<and> CHR ''/'' \<notin> set n then Some n else None)
      else None)"

definition fs_readdir :: "filesystem \<Rightarrow> string \<Rightarrow> errno + string list" where
  "fs_readdir fs p =
     (case map_of fs p of
        None \<Rightarrow> Inl ENOENT
      | Some (File _) \<Rightarrow> Inl ENOTDIR
      | Some Directory \<Rightarrow> Inr (List.map_filter (\<lambda>(q, _). child_name p q) fs))"

text \<open>\<open>remove\<close> of node-fs-extra deletes a file, or a directory with all it holds.\<close>

definition fs_remove :: "filesystem \<Rightarrow> string \<Rightarrow> filesystem" where
  "fs_remove fs p = filter (\<lambda>(q, _). \<not> (q = p \<or> prefix (dir_prefix p) q)) fs"

definition fs_unlink :: "filesystem \<Rightarrow> string \<Rightarrow> filesystem" where
  "fs_unlink fs p = filter (\<lambda>(q, _). q \<noteq> p) fs"

definition fs_writeFile :: "filesystem \<Rightarrow> string \<Rightarrow> string \<Rightarrow> filesystem" where
  "fs_writeFile fs p bytes = (p, File bytes) # filter (\<lambda>(q, _). q \<noteq> p) fs"

section \<open>The default transport (modules/vfs/filesystem.js)\<close>

subsection \<open>resolveRequestPath\<close>

text \<open>
  The replacement text of \<open>String.prototype.replace\<close> for a pattern without groups:
  \<open>$$\<close> is a dollar, \<open>$&\<close> the match, \<open>$`\<close> the text before the match and
  \<open>$'\<close> the text after it; every other character stands for itself.
\<close>

fun getSubstitution :: "string \<Rightarrow> string \<Rightarrow> string \<Rightarrow> string \<Rightarrow> string" where
  "getSubstitution matched pre post [] = []"
| "getSubstitution matched pre post [c] = [c]"
| "getSubstitution matched pre post (c # d # r) =
     (if c = CHR ''$'' \<and> d = CHR ''$'' then CHR ''$'' # getSubstitution matched pre post r
      else if c = CHR ''$'' \<and> d = CHR ''&'' then matched @ getSubstitution matched pre post r
      else if c = CHR ''$'' \<and> d = CHR 0x60 then pre @ getSubstitution matched pre post r
      else if c = CHR ''$'' \<and> d = CHR 0x27 then post @ getSubstitution matched pre post r
      else c # getSubstitution matched pre post (d # r))"

text \<open>
  \<open>s.replace(new RegExp(k, 'g'), v)\<close> for a key \<open>k\<close> without special characters:
  every occurrence of \<open>k\<close>, from left to right and without overlap, is replaced;
  \<open>pre\<close> is the text already passed.
\<close>

function replace_global :: "string \<Rightarrow> string \<Rightarrow> string \<Rightarrow> string \<Rightarrow> string" where
  "replace_global k v pre [] = []"
| "replace_global k v pre (c # cs) =
     (if k \<noteq> [] \<and> prefix k (c # cs)
      then getSubstitution k pre (drop (length k - 1) cs) v
             @ replace_global k v (pre @ k) (drop (length k - 1) cs)
      else c # replace_global k v (pre @ [c]) cs)"
  by pat_completeness auto
termination
  by (relation "measure (\<lambda>(k, v, pre, s). length s)") auto

record resolved =
  res_query :: string
  res_protocol :: "string option"
  res_path :: string
  res_real :: "string option"

text \<open>
  \<open>rmap\<close> in the order of its keys. The user name of the session and the protocol may
  be \<open>undefined\<close>, which \<open>replace\<close> converts to a string.
\<close>

definition rmap :: "'m server_instance \<Rightarrow> string option \<Rightarrow> string option \<Rightarrow> (string \<times> string) list" where
  "rmap inst username protocol =
     [(''%DIST%'', DIST inst),
      (''%UID%'', js_String username),
      (''%USERNAME%'', js_String username),
      (''%DROOT%'', DIRS_root inst),
      (''%MOUNTPOINT%'', js_String protocol)]"

definition substitute :: "(string \<times> string) list \<Rightarrow> string \<Rightarrow> string" where
  "substitute m found = fold (\<lambda>(k, v) f. replace_global k v [] f) m found"

text \<open>
  The table of the mounts is an object, and reading a property that is not a key of the
  table gives what every object inherits under that name: a function, or for
  \<open>__proto__\<close> the prototype itself.
\<close>

definition inherited_names :: "string list" where
  "inherited_names =
     [''constructor'', ''__defineGetter__'', ''__defineSetter__'', ''hasOwnProperty'',
      ''__lookupGetter__'', ''__lookupSetter__'', ''isPrototypeOf'', ''propertyIsEnumerable'',
      ''toString'', ''valueOf'', ''__proto__'', ''toLocaleString'']"

text \<open>
  \<open>mountpoints[protocol] || mountpoints['*']\<close>: an absent mount and the empty template
  are falsy, and the wildcard is read. An inherited value is truthy, so the wildcard is
  not read; it is neither a template nor an object with a destination, which is the
  result \<^const>\<open>None\<close>.
\<close>

definition lookup_mount :: "(string \<rightharpoonup> mount) \<Rightarrow> string option \<Rightarrow> mount option" where
  "lookup_mount ms protocol =
     (case ms (js_String protocol) of
        None \<Rightarrow> if js_String protocol \<in> set inherited_names then None else ms ''*''
      | Some (MountString []) \<Rightarrow> ms ''*''
      | Some m \<Rightarrow> Some m)"

definition resolveRequestPath :: "'m server_instance \<Rightarrow> string option \<Rightarrow> string \<Rightarrow> resolved" where
  "resolveRequestPath inst username query =
     (let parts = split_query query;
          protocol = fst parts;
          path = replace_leading_slash [] (js_String (snd parts));
          found = (case lookup_mount (mounts inst) protocol of
                     None \<Rightarrow> None
                   | Some (MountObject mnt) \<Rightarrow> destination mnt
                   | Some (MountString s) \<Rightarrow> Some s);
          real = (case found of
                    None \<Rightarrow> None
                  | Some f \<Rightarrow> Some (path_join [substitute (rmap inst username protocol) f, path]))
      in \<lparr>res_query = query, res_protocol = protocol, res_path = path, res_real = real\<rparr>)"

subsection \<open>Templates made of text and tokens\<close>











subsection \<open>Outcomes and streams\<close>

text \<open>
  What a method of the transport does with its callbacks and the responder: it resolves
  with a value, rejects with a reason, throws, or answers the request itself.
\<close>

record file_iter =
  iter_filename :: string
  iter_path :: string
  iter_mime :: "string option"
  iter_type :: string

datatype reason = Message string | Errno errno | Exception js_error

datatype stream = Reader "string option" | Writer "string option"

datatype jsvalue = JTrue | JBuffer string | JString string | JList "file_iter list" | JStream stream

datatype outcome =
    Resolved jsvalue
  | Rejected reason
  | Threw js_error
  | RespondStream string stream
  | RespondRaw string nat

text \<open>
  \<open>createReadStream\<close> and \<open>createWriteStream\<close> of the transport resolve a stream of
  \<open>fstream\<close> on the real path.
\<close>

definition fs_createReadStream :: "'m server_instance \<Rightarrow> http \<Rightarrow> string \<Rightarrow> outcome" where
  "fs_createReadStream inst h path =
     Resolved (JStream (Reader (res_real (resolveRequestPath inst (session_username h) path))))"

definition fs_createWriteStream :: "'m server_instance \<Rightarrow> http \<Rightarrow> string \<Rightarrow> outcome" where
  "fs_createWriteStream inst h path =
     Resolved (JStream (Writer (res_real (resolveRequestPath inst (session_username h) path))))"

subsection \<open>Helpers\<close>

text \<open>
  \<open>getMime\<close> of the dispatcher: the entry of \<open>CONFIG.mimes\<close> for the extension, which
  is the text from the last dot on, or for \<open>default\<close> when the name has no dot.
\<close>

fun last_dot_suffix :: "string \<Rightarrow> string option" where
  "last_dot_suffix [] = None"
| "last_dot_suffix (c # cs) =
     (case last_dot_suffix cs of
        Some ext \<Rightarrow> Some ext
      | None \<Rightarrow> if c = CHR ''.'' then Some (c # cs) else None)"

definition getMime :: "'m server_instance \<Rightarrow> string \<Rightarrow> string option" where
  "getMime inst iter =
     mimes inst (case last_dot_suffix iter of None \<Rightarrow> ''default'' | Some ext \<Rightarrow> ext)"

text \<open>
  \<open>Array.prototype.indexOf\<close> on an array of strings. It compares with strict equality,
  so the element \<open>undefined\<close> (which is also what a call without argument looks for) is
  found in no array of strings.
\<close>

fun array_indexOf :: "string list \<Rightarrow> string option \<Rightarrow> int" where
  "array_indexOf [] x = -1"
| "array_indexOf (y # ys) x =
     (if x = Some y then 0
      else (let i = array_indexOf ys x in if i = -1 then -1 else i + 1))"

text \<open>
  \<open>existsWrapper\<close> calls one of its two callbacks. A real path that is \<open>null\<close> is no
  path for the file system module, which throws.
\<close>

datatype callback = CallResolve | CallReject string | Throws js_error

definition existsWrapper :: "bool \<Rightarrow> filesystem \<Rightarrow> string option \<Rightarrow> callback" where
  "existsWrapper checkFound fs real =
     (case real of
        None \<Rightarrow> Throws TypeError
      | Some r \<Rightarrow>
          (if checkFound
           then (if fs_exists fs r then CallReject ''File or directory already exist.''
                 else CallResolve)
           else (if fs_exists fs r then CallResolve
                 else CallReject ''No such file or directory'')))"

text \<open>\<open>iter.replace(/^\/?/, '/')\<close>: the name with exactly its leading slash added.\<close>

definition leading_slash :: "string \<Rightarrow> string" where
  "leading_slash s = (case s of [] \<Rightarrow> ''/'' | c # cs \<Rightarrow> if c = CHR ''/'' then s else CHR ''/'' # s)"

text \<open>
  \<open>createFileIter\<close>. Without a \<open>stat\<close> the node is looked up, and a path that cannot
  be looked up counts as a file. Of the record, the size, the permissions and the times
  come from fields of \<open>stat\<close> that the model of the file system does not carry.
\<close>

definition createFileIter ::
  "'m server_instance \<Rightarrow> filesystem \<Rightarrow> string \<Rightarrow> string \<Rightarrow> string \<Rightarrow> node option \<Rightarrow> file_iter" where
  "createFileIter inst fs query real iter stat =
     (let st = (case stat of Some n \<Rightarrow> Some n | None \<Rightarrow> map_of fs real);
          isFile = (case st of Some Directory \<Rightarrow> False | _ \<Rightarrow> True);
          type = (if isFile then ''file'' else ''dir'');
          mime = (if type = ''file'' then getMime inst iter else Some [])
      in \<lparr>iter_filename = iter, iter_path = query @ leading_slash iter,
          iter_mime = mime, iter_type = type\<rparr>)"

text \<open>
  \<open>readDir\<close>: the listing, filtered, as file records. The default filter drops \<open>.\<close>
  and \<open>..\<close>. An exception in the executor of the promise is a rejection.
\<close>

definition default_filter :: "string \<Rightarrow> bool" where
  "default_filter iter \<longleftrightarrow> array_indexOf [''.'', ''..''] (Some iter) = -1"

definition readDir ::
  "'m server_instance \<Rightarrow> filesystem \<Rightarrow> string \<Rightarrow> string option \<Rightarrow> (string \<Rightarrow> bool) option \<Rightarrow> outcome" where
  "readDir inst fs query real flt =
     (case real of
        None \<Rightarrow> Rejected (Exception TypeError)
      | Some r \<Rightarrow>
          (case fs_readdir fs r of
             Inl err \<Rightarrow> Rejected (Errno err)
           | Inr list \<Rightarrow>
               Resolved (JList (map (\<lambda>iter. createFileIter inst fs query (path_join [r, iter]) iter None)
                 (filter (case flt of None \<Rightarrow> default_filter | Some f \<Rightarrow> f) list)))))"

subsection \<open>Base64\<close>

text \<open>\<open>buffer.toString('base64')\<close>: three bytes become four characters, with padding.\<close>

definition b64 :: "nat \<Rightarrow> char" where
  "b64 n = ''ABCDEFGHIJKLMNOPQRSTUVWXYZabcdefghijklmnopqrstuvwxyz0123456789+/'' ! (n mod 64)"

fun base64 :: "string \<Rightarrow> string" where
  "base64 [] = []"
| "base64 [a] =
     (let x = (of_char a :: nat)
      in [b64 (x div 4), b64 ((x mod 4) * 16), CHR ''='', CHR ''=''])"
| "base64 [a, b] =
     (let x = (of_char a :: nat); y = (of_char b :: nat)
      in [b64 (x div 4), b64 ((x mod 4) * 16 + y div 16), b64 ((y mod 16) * 4), CHR ''=''])"
| "base64 (a # b # c # r) =
     (let x = (of_char a :: nat); y = (of_char b :: nat); z = (of_char c :: nat)
      in [b64 (x div 4), b64 ((x mod 4) * 16 + y div 16), b64 ((y mod 16) * 4 + z div 64),
          b64 (z mod 64)] @ base64 r)"

subsection \<open>The VFS methods\<close>

text \<open>
  A binding declared with \<open>const\<close> or \<open>let\<close> exists from the start of its block and is
  uninitialised until its declaration has been evaluated; reading it before that throws
  a \<open>ReferenceError\<close> (the block scoping of ECMAScript 2015).
\<close>

datatype 'a binding = Uninitialised | Initialised 'a

definition read_binding :: "'a binding \<Rightarrow> js_error + 'a" where
  "read_binding b = (case b of Uninitialised \<Rightarrow> Inl ReferenceError | Initialised v \<Rightarrow> Inr v)"

text \<open>\<open>exists\<close> passes \<open>true\<close> for \<open>checkFound\<close>.\<close>

definition VFS_exists :: "'m server_instance \<Rightarrow> http \<Rightarrow> vfs_args \<Rightarrow> filesystem \<Rightarrow> outcome" where
  "VFS_exists inst h args fs =
     (case arg_path args of
        None \<Rightarrow> Threw TypeError
      | Some p \<Rightarrow>
          (case existsWrapper True fs (res_real (resolveRequestPath inst (session_username h) p)) of
             CallResolve \<Rightarrow> Resolved JTrue
           | CallReject msg \<Rightarrow> Rejected (Message msg)
           | Throws e \<Rightarrow> Threw e))"

text \<open>
  \<open>read\<close>. In the branch for \<open>options.raw === false\<close> the callback of \<open>readFile\<close> has
  the parameter \<open>data\<close>, and the block that builds the data URL declares
  \<open>const data\<close> again: inside the block the name is the new binding, and the
  initialiser \<open>new Buffer(data)\<close> reads it while it is uninitialised.
\<close>

definition VFS_read :: "'m server_instance \<Rightarrow> http \<Rightarrow> vfs_args \<Rightarrow> filesystem \<Rightarrow> outcome" where
  "VFS_read inst h args fs =
     (case arg_path args of
        None \<Rightarrow> Threw TypeError
      | Some p \<Rightarrow>
          (let real = res_real (resolveRequestPath inst (session_username h) p)
           in if opt_raw args \<noteq> Some False then
                (if opt_stream args \<noteq> Some False then RespondStream p (Reader real)
                 else (case real of
                         None \<Rightarrow> Threw TypeError
                       | Some r \<Rightarrow>
                           (case fs_readFile fs r of
                              Inl e \<Rightarrow> Rejected (Errno e)
                            | Inr bytes \<Rightarrow> Resolved (JBuffer bytes))))
              else
                (let mime = getMime inst p
                 in case real of
                      None \<Rightarrow> Threw TypeError
                    | Some r \<Rightarrow>
                        (case fs_readFile fs r of
                           Inl e \<Rightarrow> Rejected (Errno e)
                         | Inr bytes \<Rightarrow>
                             (let data_parameter = Initialised bytes;
                                  data_of_block = (Uninitialised :: string binding)
                              in case read_binding data_of_block of
                                   Inl e \<Rightarrow> Threw e
                                 | Inr d \<Rightarrow>
                                     Resolved (JString
                                       (''data:'' @ js_String mime @ '';base64,'' @ base64 d)))))))"

text \<open>
  \<open>upload\<close>. The copy from the temporary file to the destination runs over two
  streams; whether it completes is decided outside the program, so the model takes it as
  an argument: the copy is done, or it fails with an error, leaving the destination
  untouched or with some bytes.
\<close>

datatype copy_result = CopyDone | CopyFailed errno "string option"

definition proceed :: "copy_result \<Rightarrow> filesystem \<Rightarrow> string \<Rightarrow> string \<Rightarrow> outcome \<times> filesystem" where
  "proceed copy fs source dest =
     (case copy of
        CopyFailed err partial \<Rightarrow>
          (Rejected (Errno err), (case partial of None \<Rightarrow> fs | Some bytes \<Rightarrow> fs_writeFile fs dest bytes))
      | CopyDone \<Rightarrow>
          (case fs_readFile fs source of
             Inl err \<Rightarrow> (Rejected (Errno err), fs)
           | Inr bytes \<Rightarrow> (RespondRaw ''1'' 200, fs_unlink (fs_writeFile fs dest bytes) source)))"

definition VFS_upload ::
  "'m server_instance \<Rightarrow> http \<Rightarrow> vfs_args \<Rightarrow> copy_result \<Rightarrow> filesystem \<Rightarrow> outcome \<times> filesystem" where
  "VFS_upload inst h args copy fs =
     (case files_upload h of
        None \<Rightarrow> (Threw TypeError, fs)
      | Some up \<Rightarrow>
          (let source = upload_path up
           in case arg_path (data h) of
                None \<Rightarrow> (Threw TypeError, fs)
              | Some p \<Rightarrow>
                  (case res_real (resolveRequestPath inst (session_username h) p) of
                     None \<Rightarrow> (Threw TypeError, fs)
                   | Some real \<Rightarrow>
                       (let dest = path_join [real, upload_name up]
                        in case existsWrapper False fs (Some source) of
                             CallReject msg \<Rightarrow> (Rejected (Message msg), fs)
                           | Throws e \<Rightarrow> (Threw e, fs)
                           | CallResolve \<Rightarrow>
                               (if js_String (arg_overwrite (data h)) = ''true''
                                then proceed copy fs source dest
                                else (case existsWrapper True fs (Some dest) of
                                        CallReject msg \<Rightarrow> (Rejected (Message msg), fs)
                                      | Throws e \<Rightarrow> (Threw e, fs)
                                      | CallResolve \<Rightarrow> proceed copy fs source dest))))))"

text \<open>
  \<open>delete\<close>. The guard is \<open>['', '.', '/'].indexOf() !== -1\<close>: \<open>indexOf\<close> gets no
  argument.
\<close>

definition VFS_delete ::
  "'m server_instance \<Rightarrow> http \<Rightarrow> vfs_args \<Rightarrow> filesystem \<Rightarrow> outcome \<times> filesystem" where
  "VFS_delete inst h args fs =
     (case arg_path args of
        None \<Rightarrow> (Threw TypeError, fs)
      | Some p \<Rightarrow>
          (let resolved = resolveRequestPath inst (session_username h) p
           in if array_indexOf ['''', ''.'', ''/''] None \<noteq> -1
              then (Rejected (Message ''Permission denied''), fs)
              else (case existsWrapper False fs (res_real resolved) of
                      CallReject msg \<Rightarrow> (Rejected (Message msg), fs)
                    | Throws e \<Rightarrow> (Threw e, fs)
                    | CallResolve \<Rightarrow>
                        (case res_real resolved of
                           None \<Rightarrow> (Threw TypeError, fs)
                         | Some real \<Rightarrow> (Resolved JTrue, fs_remove fs real)))))"

text \<open>
  \<open>find\<close>. The recursive search is the walk of the library \<open>findit\<close>, driven by its
  events; what it ends with is an argument of the model. The query and the names are
  put in lower case by the \<open>toLowerCase\<close> of the runtime.
\<close>

definition find_filter :: "(string \<Rightarrow> string) \<Rightarrow> string \<Rightarrow> string \<Rightarrow> bool" where
  "find_filter toLowerCase query iter =
     (if array_indexOf [''.'', ''..''] (Some iter) = -1
      then indexOf (toLowerCase iter) query \<noteq> -1
      else False)"

definition VFS_find ::
  "(string \<Rightarrow> string) \<Rightarrow> 'm server_instance \<Rightarrow> http \<Rightarrow> vfs_args \<Rightarrow> outcome \<Rightarrow> filesystem
     \<Rightarrow> outcome" where
  "VFS_find toLowerCase inst h args walk fs =
     (let query = toLowerCase (case find_query args of None \<Rightarrow> [] | Some q \<Rightarrow> q)
      in case arg_path args of
           None \<Rightarrow> Threw TypeError
         | Some p \<Rightarrow>
             (let resolved = resolveRequestPath inst (session_username h) p
              in if \<not> find_recursive args
                 then readDir inst fs p (res_real resolved) (Some (find_filter toLowerCase query))
                 else walk))"

section \<open>The package manager (lib/packagemanager.js)\<close>

text \<open>
  A manifest maps package names to metadata objects; of an object, the model keeps the
  field \<open>scope\<close> and the rest as one value. The names are the keys written in the
  manifest files, none of them a name every object inherits.
\<close>

record 'a package =
  pkg_scope :: "string option"
  pkg_meta :: 'a

type_synonym 'a manifest = "string \<rightharpoonup> 'a package"

text \<open>
  Reading a JSON file: the read fails, \<open>JSON.parse\<close> throws, or there is a value.
\<close>

datatype 'a json_file = Unreadable reason | Unparsable | Json 'a

datatype 'a pm_outcome = PmResolved "'a manifest" | PmRejected reason | PmThrew js_error

definition set_scope :: "string \<Rightarrow> 'a manifest \<Rightarrow> 'a manifest" where
  "set_scope sc meta = (\<lambda>k. map_option (\<lambda>p. p\<lparr>pkg_scope := Some sc\<rparr>) (meta k))"

text \<open>
  \<open>getSystemMetadata\<close>: the entry of \<open>packages.json\<close> for the dist, every package
  with the scope \<open>system\<close>.
\<close>

definition getSystemMetadata ::
  "'m server_instance \<Rightarrow> (string \<rightharpoonup> 'a manifest) json_file \<Rightarrow> 'a pm_outcome" where
  "getSystemMetadata inst file =
     (case file of
        Unreadable e \<Rightarrow> PmRejected e
      | Unparsable \<Rightarrow> PmThrew SyntaxError
      | Json dists \<Rightarrow>
          (case dists (DIST inst) of
             None \<Rightarrow> PmThrew TypeError
           | Some meta \<Rightarrow> PmResolved (set_scope ''system'' meta)))"

text \<open>
  \<open>_request\<close> of the dispatcher with the method \<open>read\<close>, as \<open>getUserMetadata\<close>
  calls it, followed by \<open>JSON.parse\<close>. What the transport resolves is given by
  \<open>run\<close>; a rejection and an exception in the promise both end in \<open>catch\<close>.
\<close>

definition read_manifest ::
  "'m server_instance \<Rightarrow> http \<Rightarrow> ('m vfs_module \<Rightarrow> envelope \<Rightarrow> 'a manifest json_file) \<Rightarrow> string
     \<Rightarrow> 'a manifest json_file" where
  "read_manifest inst h run path =
     (case request inst
             (h\<lparr>request_method := ''POST'', endpoint := ''read'',
                data := no_args\<lparr>arg_path := Some path, opt_stream := Some False, opt_raw := Some True\<rparr>\<rparr>) of
        TransportRequest t env \<Rightarrow> run t env
      | Reject msg \<Rightarrow> Unreadable (Message msg)
      | Throw e \<Rightarrow> Unreadable (Exception e)
      | _ \<Rightarrow> Unparsable)"

text \<open>
  One round of \<open>getUserMetadata\<close>: the packages of a manifest that was read and
  parsed are put into \<open>summed\<close> with the scope \<open>user\<close>, replacing those of the
  same name; a manifest that cannot be read or parsed is skipped.
\<close>

definition add_user_manifest :: "'a manifest json_file \<Rightarrow> 'a manifest \<Rightarrow> 'a manifest" where
  "add_user_manifest file summed =
     (case file of Json meta \<Rightarrow> summed ++ set_scope ''user'' meta | _ \<Rightarrow> summed)"

text \<open>
  Modelled from the spec: \<open>iterate\<close> of \<open>lib/utils.js\<close> is not among the sources. It
  is taken to call its callback on the elements of the list in order, each after the
  \<open>next\<close> of the one before, and the final callback at the end.

  \<open>getUserMetadata\<close>: the manifests \<open>packages.json\<close> of the search paths, one
  after the other, starting from the empty object.
\<close>

definition getUserMetadata ::
  "'m server_instance \<Rightarrow> http \<Rightarrow> ('m vfs_module \<Rightarrow> envelope \<Rightarrow> 'a manifest json_file)
     \<Rightarrow> string list option \<Rightarrow> 'a pm_outcome" where
  "getUserMetadata inst h run paths =
     PmResolved
       (fold (\<lambda>iter summed. add_user_manifest (read_manifest inst h run (iter @ ''/packages.json'')) summed)
          (case paths of None \<Rightarrow> [] | Some ps \<Rightarrow> ps) Map.empty)"

text \<open>
  The loop of \<open>getUserMetadata\<close> from any value of \<open>summed\<close>, with the reading of
  a manifest as a function of its path.
\<close>

definition user_fold ::
  "(string \<Rightarrow> 'a manifest json_file) \<Rightarrow> string list \<Rightarrow> 'a manifest \<Rightarrow> 'a manifest" where
  "user_fold rd ps acc = fold (\<lambda>iter summed. add_user_manifest (rd (iter @ ''/packages.json'')) summed) ps acc"

text \<open>
  \<open>list\<close>. Without a scope, a package of the user metadata is added where the system
  metadata has none of that name.
\<close>

definition pm_list ::
  "'m server_instance \<Rightarrow> http \<Rightarrow> (string \<rightharpoonup> 'a manifest) json_file
     \<Rightarrow> ('m vfs_module \<Rightarrow> envelope \<Rightarrow> 'a manifest json_file)
     \<Rightarrow> string option \<Rightarrow> string list option \<Rightarrow> 'a pm_outcome" where
  "pm_list inst h file run scope paths =
     (if scope = None \<or> scope = Some [] then
        (case getSystemMetadata inst file of
           PmResolved summed \<Rightarrow>
             (case getUserMetadata inst h run paths of
                PmResolved r \<Rightarrow> PmResolved (r ++ summed)
              | other \<Rightarrow> other)
         | other \<Rightarrow> other)
      else if scope = Some ''system'' then getSystemMetadata inst file
      else if scope = Some ''user'' then getUserMetadata inst h run paths
      else PmRejected (Message ''Invalid scope''))"

section \<open>Example configuration\<close>

text \<open>
  A server with two mounts: \<open>home\<close>, a template with the user name, and \<open>shared\<close>,
  an object flagged read-only. The default transport is registered.
\<close>

definition example_instance :: "unit server_instance" where
  "example_instance = \<lparr>DIST = ''dist'', DIRS_root = ''/opt/osjs'',
     mounts = [''home'' \<mapsto> MountString ''/srv/users/%USERNAME%'',
               ''shared'' \<mapsto> MountObject \<lparr>destination = Some ''/srv/shared'', transport = None,
                                         enabled = None, ro = Some True\<rparr>],
     mimes = [''.txt'' \<mapsto> ''text/plain'', ''default'' \<mapsto> ''application/octet-stream''],
     VFS = [\<lparr>mod_name = ''__default__'', mod_body = ()\<rparr>]\<rparr>"

definition get_example :: http where
  "get_example = \<lparr>request_method = ''GET'', endpoint = ''get/shared://notes.txt'',
     data = no_args\<lparr>arg_path := Some ''home://other.txt''\<rparr>,
     session_username = Some ''alice'', files_upload = None\<rparr>"

definition copy_example :: http where
  "copy_example = \<lparr>request_method = ''POST'', endpoint = ''copy'',
     data = no_args\<lparr>arg_src := Some ''home://a.txt'', arg_dest := Some ''shared://a.txt''\<rparr>,
     session_username = Some ''alice'', files_upload = None\<rparr>"

text \<open>A file system for the examples, and a session of the user \<open>alice\<close>.\<close>

definition example_fs :: filesystem where
  "example_fs =
     [(''/srv/users/alice'', Directory),
      (''/srv/users/alice/docs'', Directory),
      (''/srv/users/alice/docs/a.txt'', File ''hello''),
      (''/srv/users/alice/docs/Notes.TXT'', File ''n''),
      (''/srv/users/alice/docs/b.png'', File ''p''),
      (''/srv/users/bob'', Directory),
      (''/srv/users/bob/secret'', File ''s3cret''),
      (''/srv/shared'', Directory),
      (''/tmp/upload_1'', File ''new bytes'')]"

definition alice :: http where
  "alice = \<lparr>request_method = ''POST'', endpoint = ''read'', data = no_args,
     session_username = Some ''alice'', files_upload = None\<rparr>"

definition upload_example :: http where
  "upload_example = \<lparr>request_method = ''POST'', endpoint = ''upload'',
     data = no_args\<lparr>arg_path := Some ''home://docs'', arg_overwrite := Some ''true''\<rparr>,
     session_username = Some ''alice'',
     files_upload = Some \<lparr>upload_path = ''/tmp/upload_1'', upload_name = ''a.txt''\<rparr>\<rparr>"

text \<open>
  A search in the directory \<open>docs\<close> of the home of \<open>alice\<close>, and the manifests of
  the example: the system manifest of the dist holds the package \<open>a\<close>, the manifest
  of the one search path holds the package \<open>b\<close>.
\<close>

definition find_example :: vfs_args where
  "find_example = no_args\<lparr>arg_path := Some ''home://docs'', find_query := Some ''TXT''\<rparr>"

definition example_packages :: "(string \<rightharpoonup> string manifest) json_file" where
  "example_packages = Json [''dist'' \<mapsto> [''a'' \<mapsto> \<lparr>pkg_scope = None, pkg_meta = ''A''\<rparr>]]"

definition example_run :: "unit vfs_module \<Rightarrow> envelope \<Rightarrow> string manifest json_file" where
  "example_run t env =
     (if env_query env = ''home://.packages/packages.json''
      then Json [''b'' \<mapsto> \<lparr>pkg_scope = None, pkg_meta = ''B''\<rparr>]
      else Unreadable (Message ''No such file or directory''))"



definition accent_fs :: filesystem where
  "accent_fs =
     [(''/srv/users/alice'', Directory),
      (''/srv/users/alice/'' @ [CHR 0xC0] @ ''.txt'', File ''a''),
      (''/srv/users/alice/b.txt'', File ''b'')]"

definition accent_find :: vfs_args where
  "accent_find = no_args\<lparr>arg_path := Some ''home://'', find_query := Some [CHR 0xE0]\<rparr>"

section \<open>Properties of the dispatcher\<close>

lemmas dispatch_eval =
  request_def findTransport_def argumentMap_def writeableMap_def no_args_def Let_def
  split_query_def line_terminator_def js_String_def replace_leading_slash_def strip_get_def
  find_module_def

lemmas resolve_eval =
  resolveRequestPath_def lookup_mount_def substitute_def rmap_def path_join_def normalize_def
  assemble_def isAbsolute_def

text \<open>
  A writing operation is denied when the address that \<open>findTransport\<close> looks at (the
  path, or the source of a copy or move) names a mount that is disabled or read-only.
\<close>

lemma write_on_readonly_source_denied:
  assumes "method \<in> set writeableMap"
    and "request_method h \<noteq> ''GET''" and "endpoint h = method"
    and "argumentMap method (data h) False = Some query"
    and "mounts inst (js_String (fst (split_query query))) = Some (MountObject mnt)"
    and "enabled mnt = Some False \<or> ro mnt = Some True"
  shows "request inst h = Reject ''Operation denied!''"
  using assms by (auto simp: request_def findTransport_def Let_def)

text \<open>
  C1, at the input where the code departs from the claim: a copy from the writable mount
  \<open>home\<close> to the read-only mount \<open>shared\<close>. Only the source address is looked
  at, so the request is not denied: the dispatcher calls the transport's \<open>request\<close>
  with the method \<open>copy\<close>.
\<close>

theorem copy_into_readonly_mount_forwarded:
  "request example_instance copy_example =
     TransportRequest \<lparr>mod_name = ''__default__'', mod_body = ()\<rparr>
       \<lparr>env_query = ''home://a.txt'', env_method = ''copy'', env_data = data copy_example\<rparr>"
  by (simp add: copy_example_def example_instance_def dispatch_eval)

text \<open>
  C9: the dispatcher's \<open>createWriteStream\<close> looks the transport up under the method
  \<open>read\<close>. For an enabled mount flagged read-only whose transport is registered, it
  calls the transport's \<open>createWriteStream\<close>, and the default transport resolves
  a writer on the real path; the result is the same whatever the value of the flag
  \<open>ro\<close>, while a dispatched \<open>write\<close> request on the same path is denied.
\<close>

theorem createWriteStream_ignores_ro:
  assumes "mounts inst (js_String (fst (split_query path))) = Some (MountObject mnt)"
    and "ro mnt = Some True"
    and "enabled mnt \<noteq> Some False"
    and "find_module (VFS inst) (case transport mnt of Some n \<Rightarrow> n | None \<Rightarrow> ''__default__'') = Some t"
    and "destination mnt = Some d"
  shows "createWriteStream inst h path = TransportCreateWriteStream t path
    \<and> fs_createWriteStream inst h path =
        Resolved (JStream (Writer (Some (path_join
          [substitute (rmap inst (session_username h) (fst (split_query path))) d,
           replace_leading_slash [] (js_String (snd (split_query path)))]))))
    \<and> createWriteStream
        (inst\<lparr>mounts := (mounts inst)(js_String (fst (split_query path)) \<mapsto> MountObject (mnt\<lparr>ro := b\<rparr>))\<rparr>)
        h path = createWriteStream inst h path
    \<and> request inst (h\<lparr>request_method := ''POST'', endpoint := ''write'',
                       data := no_args\<lparr>arg_path := Some path\<rparr>\<rparr>) = Reject ''Operation denied!''"
proof -
  have stream: "createWriteStream inst h path = TransportCreateWriteStream t path"
    using assms
    by (auto simp: createWriteStream_def findTransport_def argumentMap_def writeableMap_def
        no_args_def Let_def split: option.splits)
  have writer: "fs_createWriteStream inst h path =
        Resolved (JStream (Writer (Some (path_join
          [substitute (rmap inst (session_username h) (fst (split_query path))) d,
           replace_leading_slash [] (js_String (snd (split_query path)))]))))"
    using assms(1,5)
    by (simp add: fs_createWriteStream_def resolveRequestPath_def lookup_mount_def Let_def)
  have same: "createWriteStream
        (inst\<lparr>mounts := (mounts inst)(js_String (fst (split_query path)) \<mapsto> MountObject (mnt\<lparr>ro := b\<rparr>))\<rparr>)
        h path = TransportCreateWriteStream t path"
    using assms
    by (auto simp: createWriteStream_def findTransport_def argumentMap_def writeableMap_def
        no_args_def Let_def split: option.splits)
  have denied: "request inst (h\<lparr>request_method := ''POST'', endpoint := ''write'',
                       data := no_args\<lparr>arg_path := Some path\<rparr>\<rparr>) = Reject ''Operation denied!''"
    using assms(1,2)
    by (auto simp: request_def findTransport_def argumentMap_def writeableMap_def no_args_def Let_def)
  show ?thesis using stream writer same denied by simp
qed

theorem createWriteStream_ignores_ro_witness:
  "createWriteStream example_instance get_example ''shared://pkg/main.js'' =
     TransportCreateWriteStream \<lparr>mod_name = ''__default__'', mod_body = ()\<rparr> ''shared://pkg/main.js''
   \<and> fs_createWriteStream example_instance get_example ''shared://pkg/main.js'' =
     Resolved (JStream (Writer (Some ''/srv/shared/pkg/main.js'')))"
  using createWriteStream_ignores_ro [of example_instance "''shared://pkg/main.js''"
      "\<lparr>destination = Some ''/srv/shared'', transport = None, enabled = None, ro = Some True\<rparr>"
      "\<lparr>mod_name = ''__default__'', mod_body = ()\<rparr>" "''/srv/shared''" get_example "Some True"]
  by (simp add: example_instance_def get_example_def dispatch_eval resolve_eval)

text \<open>
  C10: a request whose HTTP method is \<open>GET\<close> is dispatched as the operation \<open>read\<close>
  on the endpoint without its leading \<open>get/\<close>, whatever the endpoint is: it ends in a
  call of the transport's \<open>request\<close> with the method \<open>read\<close> or in a rejection, and
  \<open>read\<close> is none of the writing operations.
\<close>

theorem get_request_is_read:
  assumes "request_method h = ''GET''"
  shows "''read'' \<notin> set writeableMap \<and>
     ((\<exists>t. request inst h =
         TransportRequest t \<lparr>env_query = strip_get (endpoint h), env_method = ''read'',
           env_data = no_args\<lparr>arg_path := Some (strip_get (endpoint h))\<rparr>\<rparr>)
      \<or> request inst h = Reject ''Operation denied!''
      \<or> request inst h = Reject (''Cannot find VFS module for: '' @ strip_get (endpoint h)))"
  using assms
  by (auto simp: request_def findTransport_def argumentMap_def writeableMap_def no_args_def Let_def
      split: option.splits mount.splits sum.splits)

theorem get_request_is_read_witness:
  "request_method get_example = ''GET'' \<and>
   request example_instance get_example =
     TransportRequest \<lparr>mod_name = ''__default__'', mod_body = ()\<rparr>
       \<lparr>env_query = ''shared://notes.txt'', env_method = ''read'',
        env_data = no_args\<lparr>arg_path := Some ''shared://notes.txt''\<rparr>\<rparr>"
  using get_request_is_read [of get_example example_instance]
  by (simp add: get_example_def example_instance_def dispatch_eval)

section \<open>Properties of the path resolver\<close>




















section \<open>Properties of the default transport\<close>

lemma map_of_filter_neq:
  "map_of (filter (\<lambda>(q, _). q \<noteq> p) fs) x = (if x = p then None else map_of fs x)"
  by (induction fs) auto

lemma exists_unlink: "fs_exists (fs_unlink fs p) x \<longleftrightarrow> x \<noteq> p \<and> fs_exists fs x"
  by (simp add: fs_exists_def fs_unlink_def map_of_filter_neq)

lemma exists_writeFile: "fs_exists (fs_writeFile fs p bytes) x \<longleftrightarrow> x = p \<or> fs_exists fs x"
  by (simp add: fs_exists_def fs_writeFile_def map_of_filter_neq)

lemma readFile_exists: "fs_readFile fs p = Inr bytes \<Longrightarrow> fs_exists fs p"
  by (auto simp: fs_readFile_def fs_exists_def split: option.splits node.splits)

lemma array_indexOf_undefined: "array_indexOf xs None = -1"
  by (induction xs) auto

lemma indexOf_ge: "- 1 \<le> indexOf s q"
  by (induction s) (auto simp: Let_def)

lemma indexOf_sublist: "indexOf s q \<noteq> -1 \<longleftrightarrow> sublist q s"
proof (induction s)
  case Nil
  then show ?case by simp
next
  case (Cons c cs)
  have "indexOf cs q + 1 \<noteq> -1" using indexOf_ge [of cs q] by simp
  then show ?case using Cons
    by (auto simp: Let_def sublist_Cons_right)
qed

lemma find_filter_iff:
  "find_filter toLowerCase query iter \<longleftrightarrow>
     iter \<noteq> ''.'' \<and> iter \<noteq> ''..'' \<and> sublist query (toLowerCase iter)"
  by (auto simp: find_filter_def indexOf_sublist Let_def)

text \<open>
  C2, at the input where the code departs from the claim. The guard of \<open>delete\<close> calls
  \<open>indexOf\<close> without an argument, so it is false for every path, and the deletion of
  the address \<open>home:///\<close>, whose path is \<open>/\<close>, resolves \<open>true\<close> and removes the
  whole home directory of the user.
\<close>

theorem delete_of_mount_root_removes:
  "array_indexOf ['''', ''.'', ''/''] None = -1 \<and>
   VFS_delete example_instance alice (no_args\<lparr>arg_path := Some ''home:///''\<rparr>) example_fs =
     (Resolved JTrue,
      [(''/srv/users/bob'', Directory), (''/srv/users/bob/secret'', File ''s3cret''),
       (''/srv/shared'', Directory), (''/tmp/upload_1'', File ''new bytes'')])"
  by code_simp

text \<open>
  C4, as amended. \<open>exists\<close> rejects with \<open>File or directory already exist.\<close> when the
  target exists and resolves \<open>true\<close> when it does not.
\<close>

theorem exists_rejects_existing:
  assumes "arg_path args = Some p"
    and "res_real (resolveRequestPath inst (session_username h) p) = Some r"
  shows "VFS_exists inst h args fs =
     (if fs_exists fs r then Rejected (Message ''File or directory already exist.'')
      else Resolved JTrue)"
  using assms by (simp add: VFS_exists_def existsWrapper_def)

theorem exists_rejects_existing_witness:
  "VFS_exists example_instance alice (no_args\<lparr>arg_path := Some ''home://docs/a.txt''\<rparr>) example_fs =
     (if fs_exists example_fs ''/srv/users/alice/docs/a.txt''
      then Rejected (Message ''File or directory already exist.'') else Resolved JTrue)"
proof -
  have p: "arg_path (no_args\<lparr>arg_path := Some ''home://docs/a.txt''\<rparr>) = Some ''home://docs/a.txt''"
    by simp
  have r: "res_real (resolveRequestPath example_instance (session_username alice) ''home://docs/a.txt'')
     = Some ''/srv/users/alice/docs/a.txt''"
    by code_simp
  show ?thesis by (rule exists_rejects_existing [OF p r])
qed

text \<open>
  C4 as stated fails: for the existing file \<open>home://docs/a.txt\<close> the operation
  rejects, and for the missing \<open>home://docs/zzz\<close> it resolves \<open>true\<close>.
\<close>

theorem exists_counterexample:
  "fs_exists example_fs ''/srv/users/alice/docs/a.txt'' \<and>
   res_real (resolveRequestPath example_instance (Some ''alice'') ''home://docs/a.txt'')
     = Some ''/srv/users/alice/docs/a.txt'' \<and>
   VFS_exists example_instance alice (no_args\<lparr>arg_path := Some ''home://docs/a.txt''\<rparr>) example_fs
     = Rejected (Message ''File or directory already exist.'') \<and>
   \<not> fs_exists example_fs ''/srv/users/alice/docs/zzz'' \<and>
   VFS_exists example_instance alice (no_args\<lparr>arg_path := Some ''home://docs/zzz''\<rparr>) example_fs
     = Resolved JTrue"
  by code_simp

text \<open>
  C5, at the input where the code departs from the claim: \<open>read\<close> with
  \<open>options.raw = false\<close> on an existing file throws a \<open>ReferenceError\<close> in the
  callback of \<open>readFile\<close> and resolves nothing.
\<close>

theorem read_data_url_throws:
  "VFS_read example_instance alice
     (no_args\<lparr>arg_path := Some ''home://docs/a.txt'', opt_raw := Some False\<rparr>) example_fs
   = Threw ReferenceError"
  by code_simp

text \<open>
  With \<open>options.raw = false\<close> no input makes \<open>read\<close> resolve.
\<close>

lemma read_data_url_never_resolves:
  "opt_raw args = Some False \<Longrightarrow> VFS_read inst h args fs \<noteq> Resolved v"
  by (auto simp: VFS_read_def read_binding_def Let_def split: option.splits sum.splits)

text \<open>
  C6, as amended. (1) When the destination exists and \<open>overwrite\<close> is not
  \<open>true\<close>, \<open>upload\<close> rejects and changes nothing. (2) When the copy completes, the
  answer is the raw \<open>1\<close> and the temporary file is unlinked; on every other outcome
  the temporary file is where it was. A completed copy of a readable temporary file to a
  free destination, or with \<open>overwrite\<close>, succeeds.
\<close>

theorem upload_unlinks_only_on_success:
  assumes "files_upload h = Some up" and "arg_path (data h) = Some p"
    and "res_real (resolveRequestPath inst (session_username h) p) = Some real"
  shows "(fs_exists fs (path_join [real, upload_name up]) \<and> js_String (arg_overwrite (data h)) \<noteq> ''true''
          \<longrightarrow> (\<exists>why. fst (VFS_upload inst h args copy fs) = Rejected why)
              \<and> snd (VFS_upload inst h args copy fs) = fs)
    \<and> (fst (VFS_upload inst h args copy fs) = RespondRaw ''1'' 200
          \<longrightarrow> \<not> fs_exists (snd (VFS_upload inst h args copy fs)) (upload_path up))
    \<and> (fst (VFS_upload inst h args copy fs) \<noteq> RespondRaw ''1'' 200
          \<longrightarrow> (fs_exists (snd (VFS_upload inst h args copy fs)) (upload_path up)
                \<longleftrightarrow> fs_exists fs (upload_path up)))
    \<and> (copy = CopyDone \<and> fs_readFile fs (upload_path up) = Inr bytes
        \<and> (\<not> fs_exists fs (path_join [real, upload_name up]) \<or> js_String (arg_overwrite (data h)) = ''true'')
          \<longrightarrow> VFS_upload inst h args copy fs =
                (RespondRaw ''1'' 200,
                 fs_unlink (fs_writeFile fs (path_join [real, upload_name up]) bytes) (upload_path up)))"
proof -
  have a: "fs_exists fs (path_join [real, upload_name up]) \<and> js_String (arg_overwrite (data h)) \<noteq> ''true''
          \<longrightarrow> (\<exists>why. fst (VFS_upload inst h args copy fs) = Rejected why)
              \<and> snd (VFS_upload inst h args copy fs) = fs"
    using assms by (auto simp: VFS_upload_def existsWrapper_def Let_def)
  have b: "fst (VFS_upload inst h args copy fs) = RespondRaw ''1'' 200
          \<longrightarrow> \<not> fs_exists (snd (VFS_upload inst h args copy fs)) (upload_path up)"
    using assms
    by (auto simp: VFS_upload_def existsWrapper_def proceed_def Let_def exists_unlink
        split: if_splits copy_result.splits sum.splits option.splits)
  have c: "fst (VFS_upload inst h args copy fs) \<noteq> RespondRaw ''1'' 200
          \<longrightarrow> (fs_exists (snd (VFS_upload inst h args copy fs)) (upload_path up)
                \<longleftrightarrow> fs_exists fs (upload_path up))"
    using assms
    by (auto simp: VFS_upload_def existsWrapper_def proceed_def Let_def exists_writeFile
        split: if_splits copy_result.splits sum.splits option.splits)
  have d: "copy = CopyDone \<and> fs_readFile fs (upload_path up) = Inr bytes
        \<and> (\<not> fs_exists fs (path_join [real, upload_name up]) \<or> js_String (arg_overwrite (data h)) = ''true'')
          \<longrightarrow> VFS_upload inst h args copy fs =
                (RespondRaw ''1'' 200,
                 fs_unlink (fs_writeFile fs (path_join [real, upload_name up]) bytes) (upload_path up))"
    using assms
    by (auto simp: VFS_upload_def existsWrapper_def proceed_def Let_def dest: readFile_exists)
  show ?thesis using a b c d by blast
qed

theorem upload_unlinks_only_on_success_witness:
  "VFS_upload example_instance upload_example (data upload_example) CopyDone example_fs =
     (RespondRaw ''1'' 200,
      fs_unlink (fs_writeFile example_fs ''/srv/users/alice/docs/a.txt'' ''new bytes'') ''/tmp/upload_1'')
   \<and> \<not> fs_exists (snd (VFS_upload example_instance upload_example (data upload_example) CopyDone example_fs))
        ''/tmp/upload_1''"
proof -
  have u: "files_upload upload_example = Some \<lparr>upload_path = ''/tmp/upload_1'', upload_name = ''a.txt''\<rparr>"
    by (simp add: upload_example_def)
  have p: "arg_path (data upload_example) = Some ''home://docs''"
    by (simp add: upload_example_def no_args_def)
  have r: "res_real (resolveRequestPath example_instance (session_username upload_example) ''home://docs'')
     = Some ''/srv/users/alice/docs''"
    by code_simp
  have j: "path_join [''/srv/users/alice/docs'', ''a.txt''] = ''/srv/users/alice/docs/a.txt''"
    by code_simp
  have f: "fs_readFile example_fs ''/tmp/upload_1'' = Inr ''new bytes''"
    by code_simp
  have o: "js_String (arg_overwrite (data upload_example)) = ''true''"
    by code_simp
  show ?thesis
    using upload_unlinks_only_on_success [OF u p r, of example_fs "data upload_example" CopyDone "''new bytes''"] f o
    by (auto simp: j)
qed

text \<open>
  C6 as stated fails: when the copy fails, \<open>upload\<close> rejects and the temporary file
  is still there.
\<close>

theorem upload_counterexample:
  "fst (VFS_upload example_instance upload_example (data upload_example) (CopyFailed ENOSPC None) example_fs)
     = Rejected (Errno ENOSPC) \<and>
   fs_exists (snd (VFS_upload example_instance upload_example (data upload_example)
                    (CopyFailed ENOSPC None) example_fs)) ''/tmp/upload_1''"
  by code_simp

text \<open>
  C7: \<open>find\<close> without \<open>recursive\<close>, on a directory that can be listed, resolves the
  file records of exactly the entries of the listing, in its order, that are neither
  \<open>.\<close> nor \<open>..\<close> and whose name in lower case contains the query in lower case,
  the lower case being that of the \<open>toLowerCase\<close> of the runtime, whatever it does.
\<close>

theorem find_nonrecursive_exact:
  assumes "arg_path args = Some p" and "\<not> find_recursive args"
    and "res_real (resolveRequestPath inst (session_username h) p) = Some r"
    and "fs_readdir fs r = Inr listing"
  shows "\<exists>entries. VFS_find toLowerCase inst h args walk fs = Resolved (JList entries)
     \<and> entries = map (\<lambda>iter. createFileIter inst fs p (path_join [r, iter]) iter None)
         (filter (\<lambda>f. f \<noteq> ''.'' \<and> f \<noteq> ''..'' \<and>
            sublist (toLowerCase (case find_query args of None \<Rightarrow> [] | Some q \<Rightarrow> q)) (toLowerCase f)) listing)
     \<and> set (map iter_filename entries) =
         {f \<in> set listing. f \<noteq> ''.'' \<and> f \<noteq> ''..'' \<and>
            sublist (toLowerCase (case find_query args of None \<Rightarrow> [] | Some q \<Rightarrow> q)) (toLowerCase f)}"
proof -
  let ?q = "toLowerCase (case find_query args of None \<Rightarrow> [] | Some q \<Rightarrow> q)"
  let ?P = "\<lambda>f. f \<noteq> ''.'' \<and> f \<noteq> ''..'' \<and> sublist ?q (toLowerCase f)"
  let ?entries = "map (\<lambda>iter. createFileIter inst fs p (path_join [r, iter]) iter None) (filter ?P listing)"
  have flt: "find_filter toLowerCase ?q = ?P"
    by (rule ext) (simp add: find_filter_iff)
  have run: "VFS_find toLowerCase inst h args walk fs = Resolved (JList ?entries)"
    using assms by (simp add: VFS_find_def readDir_def Let_def flt)
  have names: "map iter_filename ?entries = filter ?P listing"
    by (simp add: createFileIter_def Let_def comp_def)
  have "set (map iter_filename ?entries) = {f \<in> set listing. ?P f}"
    unfolding names by auto
  with run show ?thesis by blast
qed

theorem find_nonrecursive_exact_witness:
  "(\<exists>entries. VFS_find latin1_toLowerCase example_instance alice find_example (Rejected (Message []))
          example_fs = Resolved (JList entries)
        \<and> set (map iter_filename entries) = {''a.txt'', ''Notes.TXT''})
   \<and> (\<exists>entries. VFS_find latin1_toLowerCase example_instance alice accent_find (Rejected (Message []))
          accent_fs = Resolved (JList entries)
        \<and> set (map iter_filename entries) = {[CHR 0xC0] @ ''.txt''})"
proof -
  have p: "arg_path find_example = Some ''home://docs''"
    by (simp add: find_example_def)
  have n: "\<not> find_recursive find_example"
    by (simp add: find_example_def no_args_def)
  have r: "res_real (resolveRequestPath example_instance (session_username alice) ''home://docs'')
     = Some ''/srv/users/alice/docs''"
    by code_simp
  have l: "fs_readdir example_fs ''/srv/users/alice/docs'' = Inr [''a.txt'', ''Notes.TXT'', ''b.png'']"
    by code_simp
  have q: "latin1_toLowerCase (case find_query find_example of None \<Rightarrow> [] | Some q \<Rightarrow> q) = ''txt''"
    by code_simp
  have s: "{f \<in> set [''a.txt'', ''Notes.TXT'', ''b.png'']. f \<noteq> ''.'' \<and> f \<noteq> ''..'' \<and>
            sublist ''txt'' (latin1_toLowerCase f)} = {''a.txt'', ''Notes.TXT''}"
  proof -
    have 1: "sublist ''txt'' (latin1_toLowerCase ''a.txt'')" by code_simp
    have 2: "sublist ''txt'' (latin1_toLowerCase ''Notes.TXT'')" by code_simp
    have 3: "\<not> sublist ''txt'' (latin1_toLowerCase ''b.png'')" by code_simp
    show ?thesis using 1 2 3 by auto
  qed
  have first: "\<exists>entries. VFS_find latin1_toLowerCase example_instance alice find_example
          (Rejected (Message [])) example_fs = Resolved (JList entries)
        \<and> set (map iter_filename entries) = {''a.txt'', ''Notes.TXT''}"
    using find_nonrecursive_exact [OF p n r l, of latin1_toLowerCase "Rejected (Message [])"]
    unfolding q s by blast
  have p': "arg_path accent_find = Some ''home://''"
    by (simp add: accent_find_def)
  have n': "\<not> find_recursive accent_find"
    by (simp add: accent_find_def no_args_def)
  have r': "res_real (resolveRequestPath example_instance (session_username alice) ''home://'')
     = Some ''/srv/users/alice''"
    by code_simp
  have l': "fs_readdir accent_fs ''/srv/users/alice'' = Inr [[CHR 0xC0] @ ''.txt'', ''b.txt'']"
    by code_simp
  have q': "latin1_toLowerCase (case find_query accent_find of None \<Rightarrow> [] | Some q \<Rightarrow> q) = [CHR 0xE0]"
    by code_simp
  have s': "{f \<in> set [[CHR 0xC0] @ ''.txt'', ''b.txt'']. f \<noteq> ''.'' \<and> f \<noteq> ''..'' \<and>
            sublist [CHR 0xE0] (latin1_toLowerCase f)} = {[CHR 0xC0] @ ''.txt''}"
  proof -
    have 1: "sublist [CHR 0xE0] (latin1_toLowerCase ([CHR 0xC0] @ ''.txt''))" by code_simp
    have 2: "\<not> sublist [CHR 0xE0] (latin1_toLowerCase ''b.txt'')" by code_simp
    show ?thesis using 1 2 by auto
  qed
  have second: "\<exists>entries. VFS_find latin1_toLowerCase example_instance alice accent_find
          (Rejected (Message [])) accent_fs = Resolved (JList entries)
        \<and> set (map iter_filename entries) = {[CHR 0xC0] @ ''.txt''}"
    using find_nonrecursive_exact [OF p' n' r' l', of latin1_toLowerCase "Rejected (Message [])"]
    unfolding q' s' by blast
  show ?thesis using first second by (rule conjI)
qed

section \<open>Properties of the package manager\<close>

lemma dom_set_scope: "dom (set_scope sc meta) = dom meta"
  by (auto simp: set_scope_def dom_def)

lemma set_scope_Some: "set_scope sc meta k = Some p \<Longrightarrow> pkg_scope p = Some sc"
  by (auto simp: set_scope_def)

lemma user_fold_dom:
  "dom (user_fold rd ps acc) =
     dom acc \<union> {k. \<exists>iter \<in> set ps. \<exists>meta. rd (iter @ ''/packages.json'') = Json meta \<and> k \<in> dom meta}"
proof (induction ps arbitrary: acc)
  case Nil
  then show ?case by (simp add: user_fold_def)
next
  case (Cons a ps)
  have step: "user_fold rd (a # ps) acc = user_fold rd ps (add_user_manifest (rd (a @ ''/packages.json'')) acc)"
    by (simp add: user_fold_def)
  show ?case
    unfolding step Cons.IH
    by (cases "rd (a @ ''/packages.json'')") (auto simp: add_user_manifest_def dom_set_scope)
qed

lemma user_fold_scope:
  "\<forall>k p. acc k = Some p \<longrightarrow> pkg_scope p = Some ''user''
   \<Longrightarrow> \<forall>k p. user_fold rd ps acc k = Some p \<longrightarrow> pkg_scope p = Some ''user''"
proof (induction ps arbitrary: acc)
  case Nil
  then show ?case by (simp add: user_fold_def)
next
  case (Cons a ps)
  have step: "user_fold rd (a # ps) acc = user_fold rd ps (add_user_manifest (rd (a @ ''/packages.json'')) acc)"
    by (simp add: user_fold_def)
  have inv: "\<forall>k p. add_user_manifest (rd (a @ ''/packages.json'')) acc k = Some p \<longrightarrow> pkg_scope p = Some ''user''"
    using Cons.prems
    by (cases "rd (a @ ''/packages.json'')")
       (auto simp: add_user_manifest_def map_add_def set_scope_def split: option.splits)
  show ?case unfolding step by (rule Cons.IH [OF inv])
qed

text \<open>
  C8: with the system manifest \<open>S\<close> of the dist and the user metadata \<open>U\<close>, whose
  packages are those of the manifests read over the search paths, all with the scope
  \<open>user\<close>: \<open>list\<close> without a scope resolves the manifest whose names are those of
  \<open>S\<close> and \<open>U\<close>, with the package of \<open>S\<close> under the scope \<open>system\<close> for a
  name of \<open>S\<close> and the package of \<open>U\<close> for every other name; with the scope
  \<open>system\<close> it resolves \<open>S\<close> under the scope \<open>system\<close>, with the scope
  \<open>user\<close> it resolves \<open>U\<close>.
\<close>

theorem package_list_merges:
  assumes "file = Json dists" and "dists (DIST inst) = Some S"
    and "getUserMetadata inst h run paths = PmResolved U"
  shows "(\<forall>k. k \<in> dom U \<longleftrightarrow>
            (\<exists>iter \<in> set (case paths of None \<Rightarrow> [] | Some ps \<Rightarrow> ps). \<exists>meta.
               read_manifest inst h run (iter @ ''/packages.json'') = Json meta \<and> k \<in> dom meta))
    \<and> (\<forall>k p. U k = Some p \<longrightarrow> pkg_scope p = Some ''user'')
    \<and> (scope = None \<or> scope = Some [] \<longrightarrow>
         (\<exists>m. pm_list inst h file run scope paths = PmResolved m
            \<and> dom m = dom S \<union> dom U
            \<and> (\<forall>k \<in> dom S. m k = map_option (\<lambda>p. p\<lparr>pkg_scope := Some ''system''\<rparr>) (S k))
            \<and> (\<forall>k. k \<notin> dom S \<longrightarrow> m k = U k)))
    \<and> pm_list inst h file run (Some ''system'') paths = PmResolved (set_scope ''system'' S)
    \<and> pm_list inst h file run (Some ''user'') paths = PmResolved U"
proof -
  let ?ps = "case paths of None \<Rightarrow> [] | Some ps \<Rightarrow> ps"
  have U: "U = user_fold (read_manifest inst h run) ?ps Map.empty"
    using assms(3) by (simp add: getUserMetadata_def user_fold_def)
  have a: "\<forall>k. k \<in> dom U \<longleftrightarrow>
            (\<exists>iter \<in> set ?ps. \<exists>meta.
               read_manifest inst h run (iter @ ''/packages.json'') = Json meta \<and> k \<in> dom meta)"
    unfolding U user_fold_dom by simp
  have b: "\<forall>k p. U k = Some p \<longrightarrow> pkg_scope p = Some ''user''"
    unfolding U by (rule user_fold_scope) simp
  have sys: "getSystemMetadata inst file = PmResolved (set_scope ''system'' S)"
    using assms(1,2) by (simp add: getSystemMetadata_def)
  have c: "scope = None \<or> scope = Some [] \<longrightarrow>
         (\<exists>m. pm_list inst h file run scope paths = PmResolved m
            \<and> dom m = dom S \<union> dom U
            \<and> (\<forall>k \<in> dom S. m k = map_option (\<lambda>p. p\<lparr>pkg_scope := Some ''system''\<rparr>) (S k))
            \<and> (\<forall>k. k \<notin> dom S \<longrightarrow> m k = U k))"
  proof
    assume sc: "scope = None \<or> scope = Some []"
    have run: "pm_list inst h file run scope paths = PmResolved (U ++ set_scope ''system'' S)"
      using sc sys assms(3) by (auto simp: pm_list_def)
    have d: "dom (U ++ set_scope ''system'' S) = dom S \<union> dom U"
      by (auto simp: dom_set_scope)
    have e: "\<forall>k \<in> dom S. (U ++ set_scope ''system'' S) k = map_option (\<lambda>p. p\<lparr>pkg_scope := Some ''system''\<rparr>) (S k)"
      by (auto simp: map_add_def set_scope_def)
    have f: "\<forall>k. k \<notin> dom S \<longrightarrow> (U ++ set_scope ''system'' S) k = U k"
      by (auto simp: map_add_def set_scope_def dom_def split: option.splits)
    show "\<exists>m. pm_list inst h file run scope paths = PmResolved m
            \<and> dom m = dom S \<union> dom U
            \<and> (\<forall>k \<in> dom S. m k = map_option (\<lambda>p. p\<lparr>pkg_scope := Some ''system''\<rparr>) (S k))
            \<and> (\<forall>k. k \<notin> dom S \<longrightarrow> m k = U k)"
      using run d e f by blast
  qed
  have g: "pm_list inst h file run (Some ''system'') paths = PmResolved (set_scope ''system'' S)"
    using sys by (simp add: pm_list_def)
  have i: "pm_list inst h file run (Some ''user'') paths = PmResolved U"
    using assms(3) by (simp add: pm_list_def)
  show ?thesis using a b c g i by blast
qed

lemma example_read_manifest: "read_manifest example_instance alice example_run (''home://.packages'' @ ''/packages.json'')
      = Json [''b'' \<mapsto> \<lparr>pkg_scope = None, pkg_meta = ''B''\<rparr>]"
    by (simp add: read_manifest_def example_run_def alice_def example_instance_def request_def findTransport_def argumentMap_def writeableMap_def no_args_def Let_def
  split_query_def line_terminator_def js_String_def replace_leading_slash_def strip_get_def
  find_module_def)

lemma example_user_metadata: "getUserMetadata example_instance alice example_run (Some [''home://.packages'']) = PmResolved (Map.empty ++ set_scope ''user'' [''b'' \<mapsto> \<lparr>pkg_scope = None, pkg_meta = ''B''\<rparr>])"
    unfolding getUserMetadata_def using example_read_manifest by (simp add: add_user_manifest_def)

text \<open>
  The scenario of C8: the system manifest with \<open>a\<close> and one user manifest with
  \<open>b\<close> give \<open>a\<close> with the scope \<open>system\<close> and \<open>b\<close> with the scope
  \<open>user\<close>.
\<close>

theorem package_list_merges_witness:
  "\<exists>m. pm_list example_instance alice example_packages example_run None (Some [''home://.packages''])
          = PmResolved m
     \<and> dom m = {''a'', ''b''}
     \<and> m ''a'' = Some \<lparr>pkg_scope = Some ''system'', pkg_meta = ''A''\<rparr>
     \<and> m ''b'' = Some \<lparr>pkg_scope = Some ''user'', pkg_meta = ''B''\<rparr>"
proof -
  define S :: "string manifest" where "S = [''a'' \<mapsto> \<lparr>pkg_scope = None, pkg_meta = ''A''\<rparr>]"
  define U :: "string manifest"
    where "U = Map.empty ++ set_scope ''user'' [''b'' \<mapsto> \<lparr>pkg_scope = None, pkg_meta = ''B''\<rparr>]"
  have f: "example_packages = Json [''dist'' \<mapsto> S]"
    by (simp add: example_packages_def S_def)
  have d: "[''dist'' \<mapsto> S] (DIST example_instance) = Some S"
    by (simp add: example_instance_def)
  have u': "getUserMetadata example_instance alice example_run (Some [''home://.packages'']) = PmResolved U"
    unfolding U_def by (rule example_user_metadata)
  have domS: "dom S = {''a''}" by (simp add: S_def)
  have domU: "dom U = {''b''}" by (simp add: U_def dom_set_scope)
  have Sa: "S ''a'' = Some \<lparr>pkg_scope = None, pkg_meta = ''A''\<rparr>" by (simp add: S_def)
  have Ub: "U ''b'' = Some \<lparr>pkg_scope = Some ''user'', pkg_meta = ''B''\<rparr>"
    by (simp add: U_def set_scope_def)
  note t = package_list_merges [OF f d u', of None]
  have "\<exists>m. pm_list example_instance alice example_packages example_run None (Some [''home://.packages''])
            = PmResolved m
            \<and> dom m = dom S \<union> dom U
            \<and> (\<forall>k \<in> dom S. m k = map_option (\<lambda>p. p\<lparr>pkg_scope := Some ''system''\<rparr>) (S k))
            \<and> (\<forall>k. k \<notin> dom S \<longrightarrow> m k = U k)"
    using t [THEN conjunct2, THEN conjunct2, THEN conjunct1] by (rule mp) simp
  then obtain m where m: "pm_list example_instance alice example_packages example_run None
            (Some [''home://.packages'']) = PmResolved m"
    and dm: "dom m = dom S \<union> dom U"
    and s: "\<forall>k \<in> dom S. m k = map_option (\<lambda>p. p\<lparr>pkg_scope := Some ''system''\<rparr>) (S k)"
    and nu: "\<forall>k. k \<notin> dom S \<longrightarrow> m k = U k"
    by (elim exE conjE)
  have 1: "dom m = {''a'', ''b''}"
    unfolding dm domS domU by (simp add: insert_commute)
  have "m ''a'' = map_option (\<lambda>p. p\<lparr>pkg_scope := Some ''system''\<rparr>) (S ''a'')"
    using s domS by simp
  then have 2: "m ''a'' = Some \<lparr>pkg_scope = Some ''system'', pkg_meta = ''A''\<rparr>"
    unfolding Sa by simp
  have "''b'' \<notin> dom S" unfolding domS by simp
  then have "m ''b'' = U ''b''" using nu by simp
  then have 3: "m ''b'' = Some \<lparr>pkg_scope = Some ''user'', pkg_meta = ''B''\<rparr>"
    unfolding Ub .
  show ?thesis using m 1 2 3 by (intro exI [of _ m] conjI)
qed

end
